theory Spec2Isabelle
  imports Main "HOL-Library.Sublist"
begin

section \<open>Remote job execution: \<open>BaseRemoteExecutionProcessor.execute\<close>\<close>

text \<open>
  A shallow embedding of \<^verbatim>\<open>src/pygeoapi/process/base_remote_execution.py\<close>.
  The method \<^verbatim>\<open>execute\<close> creates a working directory for the bound job id, lets the
  subclass prepare the input, submits the job to the remote executor over HTTP, waits for
  the terminal job information (the submission response itself in synchronous mode, a
  polling loop otherwise), checks the exit code and lets the subclass prepare the output.

  Everything the method does besides returning a value is explicit here: the file system,
  the sequence of HTTP requests and sleeps, and the error log are fields of a \<open>world\<close>
  that is passed through; an exception is the \<open>Inl\<close> of a sum; the polling loop, which has
  no bound on its iterations, is a partial function whose value \<open>None\<close> means that it
  never returns.
\<close>

subsection \<open>Values decoded from JSON\<close>

text \<open>
  What \<^verbatim>\<open>response.json()\<close> returns: \<^verbatim>\<open>None\<close>, \<^verbatim>\<open>bool\<close>, \<^verbatim>\<open>int\<close>, \<^verbatim>\<open>str\<close>, \<^verbatim>\<open>list\<close>
  and \<^verbatim>\<open>dict\<close>. A \<^verbatim>\<open>dict\<close> is an association list in insertion order with distinct keys.
  Numbers are integers: a JSON number with a fraction or an exponent (a Python
  \<^verbatim>\<open>float\<close>) has no counterpart in this model.
\<close>

datatype json =
    JNull
  | JBool bool
  | JInt int
  | JStr string
  | JArr "json list"
  | JObj "(string \<times> json) list"

subsection \<open>Exceptions\<close>

text \<open>
  A response of the \<^verbatim>\<open>requests\<close> library, as far as \<^verbatim>\<open>execute\<close> reads it: the status
  code, and the value \<^verbatim>\<open>response.json()\<close> decodes from the body (\<open>None\<close> when the body
  is not JSON, where \<^verbatim>\<open>json()\<close> raises).
\<close>

record response =
  status_code :: nat
  body :: "json option"

text \<open>
  The argument an exception was constructed with: a Python value
  (\<^verbatim>\<open>ProcessorExecuteError(message)\<close>) or the response object itself
  (\<^verbatim>\<open>ProcessorExecuteError(response)\<close>).
\<close>

datatype err_arg = Val json | Resp response

text \<open>
  \<^verbatim>\<open>ProcessorGenericError\<close> and \<^verbatim>\<open>ProcessorExecuteError\<close> are imported from
  \<^verbatim>\<open>pygeoapi.process.base\<close>; the others are Python's and the \<^verbatim>\<open>requests\<close> library's own.
  \<open>OtherException\<close> and \<open>OtherBaseException\<close> stand for any further exception a subclass
  hook or the transport may raise, below and outside \<^verbatim>\<open>Exception\<close> respectively.
\<close>

datatype exn =
    ProcessorGenericError err_arg
  | ProcessorExecuteError err_arg
  | FileExistsError string
  | FileNotFoundError string
  | NotADirectoryError string
  | KeyError string
  | TypeError
  | ValueError
  | JSONDecodeError
  | NotImplementedError
  | ConnectionError
  | OtherException string
  | KeyboardInterrupt
  | SystemExit
  | OtherBaseException string

text \<open>
  Which exceptions a clause \<^verbatim>\<open>except Exception\<close> catches: all but those that derive
  from \<^verbatim>\<open>BaseException\<close> directly. The two processor errors are ordinary exception
  classes (in \<^verbatim>\<open>pygeoapi.process.base\<close> they derive from \<^verbatim>\<open>Exception\<close> through
  \<^verbatim>\<open>GenericError\<close>).
\<close>

fun is_Exception :: "exn \<Rightarrow> bool" where
  "is_Exception KeyboardInterrupt = False"
| "is_Exception SystemExit = False"
| "is_Exception (OtherBaseException _) = False"
| "is_Exception _ = True"

subsection \<open>Python operations on decoded values\<close>

text \<open>\<^verbatim>\<open>obj[key]\<close> for a string key: only a \<^verbatim>\<open>dict\<close> can be indexed by a string.\<close>

fun py_getitem :: "json \<Rightarrow> string \<Rightarrow> exn + json" where
  "py_getitem (JObj kvs) k = (case map_of kvs k of None \<Rightarrow> Inl (KeyError k) | Some v \<Rightarrow> Inr v)"
| "py_getitem _ k = Inl TypeError"

text \<open>The truth value of an object, as \<^verbatim>\<open>if obj:\<close> tests it.\<close>

fun py_truthy :: "json \<Rightarrow> bool" where
  "py_truthy JNull = False"
| "py_truthy (JBool b) = b"
| "py_truthy (JInt n) = (n \<noteq> 0)"
| "py_truthy (JStr s) = (s \<noteq> [])"
| "py_truthy (JArr xs) = (xs \<noteq> [])"
| "py_truthy (JObj kvs) = (kvs \<noteq> [])"

text \<open>\<^verbatim>\<open>obj != 0\<close>: \<^verbatim>\<open>False == 0\<close> and \<^verbatim>\<open>True == 1\<close> in Python; nothing but a number equals \<^verbatim>\<open>0\<close>.\<close>

fun py_ne_zero :: "json \<Rightarrow> bool" where
  "py_ne_zero (JInt n) = (n \<noteq> 0)"
| "py_ne_zero (JBool b) = b"
| "py_ne_zero _ = True"

text \<open>Decimal digits of a natural number and \<^verbatim>\<open>str\<close> of an integer.\<close>

fun dec_nat :: "nat \<Rightarrow> string" where
  "dec_nat n = (if n < 10 then [char_of (48 + n)] else dec_nat (n div 10) @ [char_of (48 + n mod 10)])"

definition str_int :: "int \<Rightarrow> string" where
  "str_int i = (if i < 0 then CHR ''-'' # dec_nat (nat (- i)) else dec_nat (nat i))"

text \<open>\<^verbatim>\<open>sep.join(parts)\<close>.\<close>

fun join :: "string \<Rightarrow> string list \<Rightarrow> string" where
  "join sep [] = []"
| "join sep [x] = x"
| "join sep (x # y # ys) = x @ sep @ join sep (y # ys)"

text \<open>
  \<^verbatim>\<open>repr\<close> of a string of ASCII characters: single quotes unless the string has a single
  quote and no double quote; the backslash, the chosen quote and the control characters are
  escaped.
\<close>

definition hex_digit :: "nat \<Rightarrow> char" where
  "hex_digit d = (if d < 10 then char_of (48 + d) else char_of (87 + d))"

definition repr_char :: "char \<Rightarrow> char \<Rightarrow> string" where
  "repr_char q c =
     (if c = CHR 0x5C then [CHR 0x5C, CHR 0x5C]
      else if c = q then [CHR 0x5C, q]
      else if c = CHR 0x09 then [CHR 0x5C, CHR ''t'']
      else if c = CHR 0x0A then [CHR 0x5C, CHR ''n'']
      else if c = CHR 0x0D then [CHR 0x5C, CHR ''r'']
      else if of_char c < (32::nat) \<or> of_char c = (127::nat)
        then [CHR 0x5C, CHR ''x'', hex_digit (of_char c div 16), hex_digit (of_char c mod 16)]
      else [c])"

definition repr_str :: "string \<Rightarrow> string" where
  "repr_str s =
     (let q = (if CHR 0x27 \<in> set s \<and> CHR 0x22 \<notin> set s then CHR 0x22 else CHR 0x27)
      in [q] @ concat (map (repr_char q) s) @ [q])"

text \<open>\<^verbatim>\<open>repr(obj)\<close> and \<^verbatim>\<open>str(obj)\<close>; an f-string field \<^verbatim>\<open>{obj}\<close> is \<^verbatim>\<open>str(obj)\<close>.\<close>

fun py_repr :: "json \<Rightarrow> string" where
  "py_repr JNull = ''None''"
| "py_repr (JBool b) = (if b then ''True'' else ''False'')"
| "py_repr (JInt n) = str_int n"
| "py_repr (JStr s) = repr_str s"
| "py_repr (JArr xs) = ''['' @ join '', '' (map py_repr xs) @ '']''"
| "py_repr (JObj kvs) =
     ''{'' @ join '', '' (map (\<lambda>kv. repr_str (fst kv) @ '': '' @ py_repr (snd kv)) kvs) @ ''}''"

fun py_str :: "json \<Rightarrow> string" where
  "py_str (JStr s) = s"
| "py_str v = py_repr v"

declare dec_nat.simps [simp del]

subsection \<open>Paths\<close>

text \<open>
  \<^verbatim>\<open>str(Path(a) / b)\<close> for POSIX paths, as \<^verbatim>\<open>pathlib\<close> computes it: the segments are
  joined (an absolute right operand replaces the left one), the root is split off (exactly
  two leading slashes are kept, any other number of them is one), empty components and
  \<^verbatim>\<open>.\<close> are dropped, and the empty path is written \<^verbatim>\<open>.\<close>.
\<close>

fun split_sep :: "string \<Rightarrow> string list" where
  "split_sep [] = [[]]"
| "split_sep (c # cs) =
     (if c = CHR ''/'' then [] # split_sep cs
      else (case split_sep cs of [] \<Rightarrow> [[c]] | w # ws \<Rightarrow> (c # w) # ws))"

definition splitroot :: "string \<Rightarrow> string \<times> string" where
  "splitroot p =
     (if take 1 p \<noteq> ''/'' then ([], p)
      else if take 1 (drop 1 p) \<noteq> ''/'' \<or> take 1 (drop 2 p) = ''/'' then (''/'', drop 1 p)
      else (take 2 p, drop 2 p))"

definition path_parts :: "string \<Rightarrow> string list" where
  "path_parts p = filter (\<lambda>x. x \<noteq> [] \<and> x \<noteq> ''.'') (split_sep (snd (splitroot p)))"

definition format_path :: "string \<Rightarrow> string list \<Rightarrow> string" where
  "format_path root tail = (let s = root @ join ''/'' tail in if s = [] then ''.'' else s)"

definition posix_join :: "string \<Rightarrow> string \<Rightarrow> string" where
  "posix_join a b =
     (if take 1 b = ''/'' then b
      else if a = [] \<or> take 1 (rev a) = ''/'' then a @ b
      else a @ ''/'' @ b)"

definition truediv :: "string \<Rightarrow> string \<Rightarrow> string" where
  "truediv a b = (let p = posix_join a b in format_path (fst (splitroot p)) (path_parts p))"

text \<open>The directory a path lies in (\<^verbatim>\<open>Path(p).parent\<close>), and whether a path lies in or is a directory.\<close>

definition parent_path :: "string \<Rightarrow> string" where
  "parent_path p = format_path (fst (splitroot p)) (butlast (path_parts p))"

definition under :: "string \<Rightarrow> string \<Rightarrow> bool" where
  "under d p = (fst (splitroot d) = fst (splitroot p) \<and> prefix (path_parts d) (path_parts p))"

subsection \<open>The file system\<close>

text \<open>
  A file system maps a path to what is there: a directory or a file with its content.
  Permissions, links and faults of the device are not part of the model, so an
  operation fails only for the reasons written here.
\<close>

datatype node = Dir | File string

type_synonym filesys = "string \<Rightarrow> node option"

text \<open>\<^verbatim>\<open>os.mkdir(path, mode=0o755)\<close>: refuses an existing path; the parent must be a directory.\<close>

definition os_mkdir :: "string \<Rightarrow> filesys \<Rightarrow> (exn + unit) \<times> filesys" where
  "os_mkdir path fs =
     (if fs path \<noteq> None then (Inl (FileExistsError path), fs)
      else (case fs (parent_path path) of
              None \<Rightarrow> (Inl (FileNotFoundError path), fs)
            | Some (File _) \<Rightarrow> (Inl (NotADirectoryError path), fs)
            | Some Dir \<Rightarrow> (Inr (), fs(path \<mapsto> Dir))))"

text \<open>\<^verbatim>\<open>shutil.rmtree(path)\<close>: removes the directory and everything in it.\<close>

definition shutil_rmtree :: "string \<Rightarrow> filesys \<Rightarrow> (exn + unit) \<times> filesys" where
  "shutil_rmtree path fs =
     (case fs path of
        None \<Rightarrow> (Inl (FileNotFoundError path), fs)
      | Some (File _) \<Rightarrow> (Inl (NotADirectoryError path), fs)
      | Some Dir \<Rightarrow> (Inr (), (\<lambda>q. if under path q then None else fs q)))"

subsection \<open>The processor, the remote executor and the world\<close>

text \<open>
  The attributes \<^verbatim>\<open>__init__\<close> sets. \<open>job_id\<close> is \<open>None\<close> until \<^verbatim>\<open>set_job_id\<close> binds it.
\<close>

record processor =
  private_processor_dir :: string
  url_executor :: string
  polling_time :: int
  remote_execute_synch :: bool
  job_id :: "string option"

definition set_job_id :: "processor \<Rightarrow> string \<Rightarrow> processor" where
  "set_job_id self jid = self\<lparr>job_id := Some jid\<rparr>"

text \<open>
  A URL is kept as the two arguments of \<^verbatim>\<open>urljoin(base, reference)\<close>. The JSON body of
  the submission is \<^verbatim>\<open>{'application_params': {'job_id', 'synch_execution'},
  'code_input_params'}\<close>; what \<^verbatim>\<open>prepare_input\<close> returns is of any type \<open>'p\<close>.
\<close>

datatype url = Urljoin string string

record 'p submission =
  app_job_id :: string
  synch_execution :: bool
  code_input_params :: 'p

text \<open>What \<^verbatim>\<open>execute\<close> does to the outside, in order: HTTP requests and sleeps.\<close>

datatype 'p event =
    Post url "(string \<times> string) list" "'p submission"
  | Get url
  | Sleep int

record 'p world =
  fs :: filesys
  trace :: "'p event list"
  error_log :: "string list"

text \<open>
  What \<^verbatim>\<open>execute\<close> depends on and does not define: the two hooks a subclass implements,
  which read and write files and return or raise, and the remote executor, whose answer to
  a request (a response, or an exception of the transport) may depend on everything that
  was sent before. The list given to \<open>remote\<close> ends with the request being answered.
\<close>

record ('d, 'o, 'p, 'r) env =
  prepare_input :: "'d \<Rightarrow> string \<Rightarrow> 'o \<Rightarrow> filesys \<Rightarrow> (exn + 'p) \<times> filesys"
  prepare_output :: "json \<Rightarrow> string \<Rightarrow> 'o \<Rightarrow> filesys \<Rightarrow> (exn + string \<times> 'r) \<times> filesys"
  remote :: "'p event list \<Rightarrow> exn + response"

text \<open>\<^verbatim>\<open>response.ok\<close>: false exactly for the status codes 400 to 599.\<close>

definition ok :: "response \<Rightarrow> bool" where
  "ok r = (\<not> (400 \<le> status_code r \<and> status_code r < 600))"

definition response_json :: "response \<Rightarrow> exn + json" where
  "response_json r = (case body r of None \<Rightarrow> Inl JSONDecodeError | Some v \<Rightarrow> Inr v)"

definition requests_post ::
  "('p event list \<Rightarrow> exn + response) \<Rightarrow> url \<Rightarrow> (string \<times> string) list \<Rightarrow> 'p submission \<Rightarrow>
   'p world \<Rightarrow> (exn + response) \<times> 'p world" where
  "requests_post rem u headers payload w =
     (let tr = trace w @ [Post u headers payload] in (rem tr, w\<lparr>trace := tr\<rparr>))"

definition requests_get ::
  "('p event list \<Rightarrow> exn + response) \<Rightarrow> url \<Rightarrow> 'p world \<Rightarrow> (exn + response) \<times> 'p world" where
  "requests_get rem u w = (let tr = trace w @ [Get u] in (rem tr, w\<lparr>trace := tr\<rparr>))"

text \<open>\<^verbatim>\<open>time.sleep(secs)\<close> raises \<^verbatim>\<open>ValueError\<close> for a negative duration.\<close>

definition time_sleep :: "int \<Rightarrow> 'p world \<Rightarrow> (exn + unit) \<times> 'p world" where
  "time_sleep secs w =
     (if secs < 0 then (Inl ValueError, w) else (Inr (), w\<lparr>trace := trace w @ [Sleep secs]\<rparr>))"

definition logging_error :: "string \<Rightarrow> 'p world \<Rightarrow> 'p world" where
  "logging_error msg w = w\<lparr>error_log := error_log w @ [msg]\<rparr>"

subsection \<open>\<^verbatim>\<open>execute\<close>\<close>

text \<open>
  \<^verbatim>\<open>try: body  except Exception: handler\<close>, for a body that has run and raised or finished, leaving the state
  \<open>s\<close>: the handler replaces what the body raised when that is an \<^verbatim>\<open>Exception\<close>.
\<close>

definition except_Exception ::
  "(exn + 'a) \<times> 's \<Rightarrow> ('s \<Rightarrow> (exn + 'a) \<times> 's) \<Rightarrow> (exn + 'a) \<times> 's" where
  "except_Exception tried handler =
     (case tried of
        (Inl e, s) \<Rightarrow> if is_Exception e then handler s else (Inl e, s)
      | (Inr v, s) \<Rightarrow> (Inr v, s))"

text \<open>
  The two statements \<^verbatim>\<open>message = response.json()['Message']\<close> and
  \<^verbatim>\<open>raise ProcessorExecuteError(message)\<close>: the exception they end with.
\<close>

definition raise_message :: "response \<Rightarrow> exn" where
  "raise_message response =
     (case response_json response of
        Inl e \<Rightarrow> e
      | Inr j \<Rightarrow>
          (case py_getitem j ''Message'' of
             Inl e \<Rightarrow> e
           | Inr message \<Rightarrow> ProcessorExecuteError (Val message)))"

text \<open>Lines 180 to 189: the submission was not accepted (\<^verbatim>\<open>not response.ok\<close>).\<close>

definition submission_failure ::
  "response \<Rightarrow> string \<Rightarrow> 'p world \<Rightarrow> (exn + 'a) \<times> 'p world" where
  "submission_failure response working_dir w =
     except_Exception
       (case shutil_rmtree working_dir (fs w) of
          (Inl e, fs') \<Rightarrow> (Inl e, w\<lparr>fs := fs'\<rparr>)
        | (Inr _, fs') \<Rightarrow> (Inl (raise_message response), w\<lparr>fs := fs'\<rparr>))
       (\<lambda>s. (Inl (ProcessorExecuteError (Resp response)), s))"

text \<open>Lines 206 to 211: a poll was not answered with success.\<close>

definition poll_failure :: "response \<Rightarrow> 'p world \<Rightarrow> (exn + 'a) \<times> 'p world" where
  "poll_failure response w =
     except_Exception
       (Inl (raise_message response), w)
       (\<lambda>s. (Inl (ProcessorExecuteError (Resp response)), s))"

text \<open>
  Lines 201 to 215, one iteration of \<^verbatim>\<open>while True\<close>: it raises (\<open>Inl\<close>), leaves the loop
  with the job information (\<open>Inr (Some info)\<close>) or goes round again (\<open>Inr None\<close>).
\<close>

definition poll_iteration ::
  "('p event list \<Rightarrow> exn + response) \<Rightarrow> processor \<Rightarrow> string \<Rightarrow> 'p world \<Rightarrow>
   (exn + json option) \<times> 'p world" where
  "poll_iteration rem self jid w =
     (case time_sleep (polling_time self) w of
        (Inl e, w1) \<Rightarrow> (Inl e, w1)
      | (Inr _, w1) \<Rightarrow>
          (case requests_get rem (Urljoin (url_executor self) (''job_info/'' @ jid)) w1 of
             (Inl e, w2) \<Rightarrow> (Inl e, w2)
           | (Inr response, w2) \<Rightarrow>
               if \<not> ok response then poll_failure response w2
               else
                 (case response_json response of
                    Inl e \<Rightarrow> (Inl e, w2)
                  | Inr info \<Rightarrow>
                      (case py_getitem info ''job_info'' of
                         Inl e \<Rightarrow> (Inl e, w2)
                       | Inr job_info \<Rightarrow>
                           (case py_getitem job_info ''end_processing'' of
                              Inl e \<Rightarrow> (Inl e, w2)
                            | Inr end_processing \<Rightarrow>
                                if py_truthy end_processing then (Inr (Some info), w2)
                                else (Inr None, w2))))))"

text \<open>
  Lines 200 to 215, the loop. It has no counter (the one the source once had is commented
  out), so it is a partial function: \<open>None\<close> is the loop that never ends.
\<close>

partial_function (option) poll_loop ::
  "('p event list \<Rightarrow> exn + response) \<Rightarrow> processor \<Rightarrow> string \<Rightarrow> 'p world \<Rightarrow>
   ((exn + json) \<times> 'p world) option" where
  "poll_loop rem self jid w =
     (case poll_iteration rem self jid w of
        (Inl e, w') \<Rightarrow> Some (Inl e, w')
      | (Inr r, w') \<Rightarrow>
          (case r of
             Some info \<Rightarrow> Some (Inr info, w')
           | None \<Rightarrow> poll_loop rem self jid w'))"

text \<open>
  Lines 217 to 230: the exit code of the terminal job information. The full text with
  \<^verbatim>\<open>std_err\<close> goes to the log, the shorter one is raised.
\<close>

definition job_exit_check :: "json \<Rightarrow> 'p world \<Rightarrow> (exn + unit) \<times> 'p world" where
  "job_exit_check info w =
     (case py_getitem info ''job_info'' of
        Inl e \<Rightarrow> (Inl e, w)
      | Inr job_info \<Rightarrow>
          (case py_getitem job_info ''exit_code'' of
             Inl e \<Rightarrow> (Inl e, w)
           | Inr exit_code \<Rightarrow>
               if py_ne_zero exit_code then
                 (case py_getitem info ''job_id'' of
                    Inl e \<Rightarrow> (Inl e, w)
                  | Inr jid \<Rightarrow>
                      (case py_getitem job_info ''std_err'' of
                         Inl e \<Rightarrow> (Inl e, w)
                       | Inr std_err \<Rightarrow>
                           (let error_msg =
                                  ''The job '' @ [CHR 0x27] @ py_str jid @ [CHR 0x27]
                                  @ '' exited with code: '' @ py_str exit_code @ [CHR 0x0A]
                                  @ ''Error message:'' @ [CHR 0x0A] @ py_str std_err;
                                w1 = logging_error error_msg w;
                                message =
                                  ''The job '' @ [CHR 0x27] @ py_str jid @ [CHR 0x27]
                                  @ '' exited with code '' @ py_str exit_code
                            in (Inl (ProcessorExecuteError (Val (JStr message))), w1))))
               else (Inr (), w)))"

text \<open>Lines 217 to 234: the exit code, then the subclass prepares the output.\<close>

definition conclude ::
  "('d, 'o, 'p, 'r) env \<Rightarrow> json \<Rightarrow> string \<Rightarrow> 'o \<Rightarrow> 'p world \<Rightarrow>
   (exn + string \<times> 'r) \<times> 'p world" where
  "conclude env info working_dir outputs w =
     (case job_exit_check info w of
        (Inl e, w1) \<Rightarrow> (Inl e, w1)
      | (Inr _, w1) \<Rightarrow>
          (case prepare_output env info working_dir outputs (fs w1) of
             (r, fs') \<Rightarrow> (r, w1\<lparr>fs := fs'\<rparr>)))"

text \<open>Lines 194 to 215: the terminal job information, from the submission response or from polling.\<close>

definition await_info ::
  "('p event list \<Rightarrow> exn + response) \<Rightarrow> processor \<Rightarrow> string \<Rightarrow> response \<Rightarrow> 'p world \<Rightarrow>
   ((exn + json) \<times> 'p world) option" where
  "await_info rem self jid response w =
     (if remote_execute_synch self then Some (response_json response, w)
      else poll_loop rem self jid w)"

definition missing_job_id :: exn where
  "missing_job_id =
     ProcessorGenericError (Val (JStr (''Missing call to '' @ [CHR 0x27] @ ''set_job_id()''
       @ [CHR 0x27] @ '' before '' @ [CHR 0x27] @ ''execute()'' @ [CHR 0x27] @ ''.'')))"

text \<open>
  Lines 153 to 234. \<^verbatim>\<open>not self.job_id\<close> holds for \<^verbatim>\<open>None\<close> and for the empty string.
  The result is \<open>None\<close> when the method never returns, \<open>Some (Inl e, w)\<close> when it raises
  \<open>e\<close> and \<open>Some (Inr (mimetype, outputs), w)\<close> when it returns, \<open>w\<close> being the world it leaves.
\<close>

definition execute ::
  "processor \<Rightarrow> ('d, 'o, 'p, 'r) env \<Rightarrow> 'd \<Rightarrow> 'o \<Rightarrow> 'p world \<Rightarrow>
   ((exn + string \<times> 'r) \<times> 'p world) option" where
  "execute self env data outputs w =
     (case job_id self of
        None \<Rightarrow> Some (Inl missing_job_id, w)
      | Some jid \<Rightarrow>
          if jid = [] then Some (Inl missing_job_id, w)
          else
            (let working_dir = truediv (private_processor_dir self) jid in
             case os_mkdir working_dir (fs w) of
               (Inl e, fs1) \<Rightarrow> Some (Inl e, w\<lparr>fs := fs1\<rparr>)
             | (Inr _, fs1) \<Rightarrow>
                 (case prepare_input env data working_dir outputs fs1 of
                    (Inl ex, fs2) \<Rightarrow>
                      (case shutil_rmtree working_dir fs2 of
                         (Inl e, fs3) \<Rightarrow> Some (Inl e, w\<lparr>fs := fs3\<rparr>)
                       | (Inr _, fs3) \<Rightarrow> Some (Inl ex, w\<lparr>fs := fs3\<rparr>))
                  | (Inr params, fs2) \<Rightarrow>
                      (case requests_post (remote env) (Urljoin (url_executor self) ''execute'')
                              [(''Content-type'', ''application/json'')]
                              \<lparr>app_job_id = jid,
                               synch_execution = remote_execute_synch self,
                               code_input_params = params\<rparr>
                              (w\<lparr>fs := fs2\<rparr>) of
                         (Inl e, w3) \<Rightarrow> Some (Inl e, w3)
                       | (Inr response, w3) \<Rightarrow>
                           if \<not> ok response then Some (submission_failure response working_dir w3)
                           else
                             (case await_info (remote env) self jid response w3 of
                                None \<Rightarrow> None
                              | Some (Inl e, w4) \<Rightarrow> Some (Inl e, w4)
                              | Some (Inr info, w4) \<Rightarrow>
                                  Some (conclude env info working_dir outputs w4))))))"

subsection \<open>Describing an execution\<close>

text \<open>The request \<^verbatim>\<open>execute\<close> submits the job with.\<close>

definition posted :: "processor \<Rightarrow> string \<Rightarrow> 'p \<Rightarrow> 'p event" where
  "posted self jid params =
     Post (Urljoin (url_executor self) ''execute'')
          [(''Content-type'', ''application/json'')]
          \<lparr>app_job_id = jid,
           synch_execution = remote_execute_synch self,
           code_input_params = params\<rparr>"

text \<open>What \<open>k\<close> rounds of the polling loop add to the trace: a sleep and a request each.\<close>

definition polls :: "processor \<Rightarrow> string \<Rightarrow> nat \<Rightarrow> 'p event list" where
  "polls self jid k =
     concat (replicate k [Sleep (polling_time self),
                          Get (Urljoin (url_executor self) (''job_info/'' @ jid))])"

text \<open>\<^verbatim>\<open>info['job_info'][key]\<close>.\<close>

definition job_info_field :: "json \<Rightarrow> string \<Rightarrow> exn + json" where
  "job_info_field info key =
     (case py_getitem info ''job_info'' of Inl e \<Rightarrow> Inl e | Inr job_info \<Rightarrow> py_getitem job_info key)"

text \<open>
  A response to a poll that keeps the loop going: success, with a body whose
  \<^verbatim>\<open>end_processing\<close> is there and false. And one that ends the loop with \<open>info\<close>.
\<close>

definition still_running :: "response \<Rightarrow> bool" where
  "still_running r =
     (ok r \<and>
      (case body r of
         None \<Rightarrow> False
       | Some info \<Rightarrow>
           (case job_info_field info ''end_processing'' of
              Inl _ \<Rightarrow> False
            | Inr v \<Rightarrow> \<not> py_truthy v)))"

definition ends_with :: "response \<Rightarrow> json \<Rightarrow> bool" where
  "ends_with r info =
     (ok r \<and> body r = Some info \<and>
      (case job_info_field info ''end_processing'' of
         Inl _ \<Rightarrow> False
       | Inr v \<Rightarrow> py_truthy v))"

text \<open>
  \<^verbatim>\<open>execute\<close> started in the world \<open>w\<close> gets as far as line 215: the job id is bound, the
  working directory \<open>wd\<close> is created, the input is prepared, the submission is answered
  with success, and the terminal job information \<open>info\<close> is there, from either path, in
  the world \<open>w4\<close>.
\<close>

definition terminal_info ::
  "processor \<Rightarrow> ('d, 'o, 'p, 'r) env \<Rightarrow> 'd \<Rightarrow> 'o \<Rightarrow> 'p world \<Rightarrow> string \<Rightarrow> json \<Rightarrow> 'p world \<Rightarrow>
   bool" where
  "terminal_info self env data outputs w wd info w4 =
     (\<exists>jid fs1 params fs2 response.
        job_id self = Some jid \<and> jid \<noteq> [] \<and>
        wd = truediv (private_processor_dir self) jid \<and>
        os_mkdir wd (fs w) = (Inr (), fs1) \<and>
        prepare_input env data wd outputs fs1 = (Inr params, fs2) \<and>
        remote env (trace w @ [posted self jid params]) = Inr response \<and>
        ok response \<and>
        await_info (remote env) self jid response
          (w\<lparr>fs := fs2, trace := trace w @ [posted self jid params]\<rparr>) = Some (Inr info, w4))"

text \<open>
  The two texts of a failed job, written out once more: the one for the caller, of the job
  id and the exit code, and the one for the log, which has the error stream as well.
\<close>

definition job_failure_message :: "json \<Rightarrow> json \<Rightarrow> string" where
  "job_failure_message jid exit_code =
     ''The job '' @ [CHR 0x27] @ py_str jid @ [CHR 0x27] @ '' exited with code ''
     @ py_str exit_code"

definition job_failure_log :: "json \<Rightarrow> json \<Rightarrow> json \<Rightarrow> string" where
  "job_failure_log jid exit_code std_err =
     ''The job '' @ [CHR 0x27] @ py_str jid @ [CHR 0x27] @ '' exited with code: ''
     @ py_str exit_code @ [CHR 0x0A] @ ''Error message:'' @ [CHR 0x0A] @ py_str std_err"

text \<open>
  A hook keeps a directory when it leaves it in place wherever it finds it: the hooks of
  this repository write and read files in the working directory and never remove it.
\<close>

definition keeps_dir :: "(filesys \<Rightarrow> 'a \<times> filesys) \<Rightarrow> string \<Rightarrow> bool" where
  "keeps_dir hook d = (\<forall>f. f d = Some Dir \<longrightarrow> snd (hook f) d = Some Dir)"

subsection \<open>A concrete setting\<close>

text \<open>
  The processor, hooks and remote executor of the scenarios: job id \<^verbatim>\<open>abc123\<close>, a hook
  that stages the request in a file, a hook that returns the job information as it is, and
  a remote executor that answers its requests with the responses of a list, in turn.
\<close>

definition demo_processor :: "bool \<Rightarrow> processor" where
  "demo_processor synch =
     \<lparr>private_processor_dir = ''/data/jobs'',
      url_executor = ''http://executor:5000/'',
      polling_time = 3,
      remote_execute_synch = synch,
      job_id = Some ''abc123''\<rparr>"

definition demo_world :: "string world" where
  "demo_world = \<lparr>fs = [''/data/jobs'' \<mapsto> Dir], trace = [], error_log = []\<rparr>"

definition stage_input :: "string \<Rightarrow> string \<Rightarrow> unit \<Rightarrow> filesys \<Rightarrow> (exn + string) \<times> filesys" where
  "stage_input data working_dir outputs f =
     (Inr data, f(truediv working_dir ''input.txt'' \<mapsto> File data))"

definition return_info ::
  "json \<Rightarrow> string \<Rightarrow> unit \<Rightarrow> filesys \<Rightarrow> (exn + string \<times> json) \<times> filesys" where
  "return_info info working_dir outputs f = (Inr (''application/json'', info), f)"

fun is_request :: "'p event \<Rightarrow> bool" where
  "is_request (Sleep _) = False"
| "is_request _ = True"

definition answer_in_turn :: "response list \<Rightarrow> 'p event list \<Rightarrow> exn + response" where
  "answer_in_turn rs tr =
     (case drop (length (filter is_request tr) - 1) rs of
        [] \<Rightarrow> Inl ConnectionError
      | r # _ \<Rightarrow> Inr r)"

definition demo_env :: "response list \<Rightarrow> (string, unit, string, json) env" where
  "demo_env rs =
     \<lparr>prepare_input = stage_input, prepare_output = return_info, remote = answer_in_turn rs\<rparr>"

definition bad_params :: response where
  "bad_params = \<lparr>status_code = 400, body = Some (JObj [(''Message'', JStr ''bad params'')])\<rparr>"

definition unavailable :: response where
  "unavailable = \<lparr>status_code = 503, body = None\<rparr>"

text \<open>
  The job information of a job that is accepted or still running, of one that ended well,
  of one that failed, and of a failed one that does not say it has ended; and the responses
  that carry them.
\<close>

definition job_body :: "(string \<times> json) list \<Rightarrow> json" where
  "job_body job_info = JObj [(''job_id'', JStr ''abc123''), (''job_info'', JObj job_info)]"

definition running_info :: json where
  "running_info = job_body [(''end_processing'', JBool False)]"

definition succeeded_info :: json where
  "succeeded_info =
     job_body [(''end_processing'', JBool True), (''exit_code'', JInt 0),
               (''std_err'', JStr []), (''params'', JObj [])]"

definition failed_info :: "string \<Rightarrow> json" where
  "failed_info std_err =
     job_body [(''end_processing'', JBool True), (''exit_code'', JInt 1),
               (''std_err'', JStr std_err), (''params'', JObj [])]"

definition unended_info :: "(string \<times> json) list \<Rightarrow> json" where
  "unended_info end_processing =
     job_body (end_processing @ [(''exit_code'', JInt 1), (''std_err'', JStr ''boom'')])"

definition replied :: "json \<Rightarrow> response" where
  "replied info = \<lparr>status_code = 200, body = Some info\<rparr>"

text \<open>
  The file system once the working directory is made and once the request is staged, and
  the world once the job is submitted.
\<close>

definition demo_made :: filesys where
  "demo_made = [''/data/jobs'' \<mapsto> Dir, ''/data/jobs/abc123'' \<mapsto> Dir]"

definition demo_staged :: filesys where
  "demo_staged = demo_made(''/data/jobs/abc123/input.txt'' \<mapsto> File ''request'')"

definition demo_submitted :: "bool \<Rightarrow> string world" where
  "demo_submitted synch =
     \<lparr>fs = demo_staged,
      trace = [posted (demo_processor synch) ''abc123'' ''request''],
      error_log = []\<rparr>"

text \<open>
  A world in which the directory of the job id is already there, with a file in it, and a
  hook that stages a file and is then interrupted.
\<close>

definition occupied_world :: "string world" where
  "occupied_world =
     \<lparr>fs = [''/data/jobs'' \<mapsto> Dir, ''/data/jobs/abc123'' \<mapsto> Dir,
            ''/data/jobs/abc123/input.txt'' \<mapsto> File ''earlier request''],
      trace = [], error_log = []\<rparr>"

definition interrupted_input ::
  "string \<Rightarrow> string \<Rightarrow> unit \<Rightarrow> filesys \<Rightarrow> (exn + string) \<times> filesys" where
  "interrupted_input data working_dir outputs f =
     (Inl KeyboardInterrupt, f(truediv working_dir ''input.txt'' \<mapsto> File data))"

text \<open>
  A hook that finds the request invalid, removes the working directory it was given and
  raises \<^verbatim>\<open>ValueError\<close>.
\<close>

definition withdrawn_input ::
  "string \<Rightarrow> string \<Rightarrow> unit \<Rightarrow> filesys \<Rightarrow> (exn + string) \<times> filesys" where
  "withdrawn_input data working_dir outputs f = (Inl ValueError, f(working_dir := None))"

section \<open>Properties\<close>

subsection \<open>The pieces of \<^verbatim>\<open>execute\<close>\<close>

lemma py_getitem_error: "py_getitem j k = Inl e \<Longrightarrow> is_Exception e"
  by (cases j) (auto split: option.splits)

lemma is_Exception_raise_message: "is_Exception (raise_message r)"
  by (auto simp: raise_message_def response_json_def dest: py_getitem_error
           split: option.split sum.split)

lemma under_refl: "under d d"
  by (simp add: under_def)

lemma rmtree_cases:
  "shutil_rmtree d f = (Inr (), (\<lambda>q. if under d q then None else f q)) \<and> f d = Some Dir
   \<or> (\<exists>e. shutil_rmtree d f = (Inl e, f) \<and> is_Exception e \<and> f d \<noteq> Some Dir)"
  by (auto simp: shutil_rmtree_def split: option.split node.split)


lemma rmtree_dir:
  "f d = Some Dir \<Longrightarrow> shutil_rmtree d f = (Inr (), (\<lambda>q. if under d q then None else f q))"
  by (simp add: shutil_rmtree_def)

lemma submission_failure_eq:
  "submission_failure r d w =
     (Inl (ProcessorExecuteError (Resp r)), w\<lparr>fs := snd (shutil_rmtree d (fs w))\<rparr>)"
  using rmtree_cases [of d "fs w"]
  by (auto simp: submission_failure_def except_Exception_def is_Exception_raise_message)

lemma poll_failure_eq: "poll_failure r w = (Inl (ProcessorExecuteError (Resp r)), w)"
  by (simp add: poll_failure_def except_Exception_def is_Exception_raise_message)

lemma mkdir_ok: "os_mkdir p f = (Inr u, f') \<Longrightarrow> f' = f(p \<mapsto> Dir) \<and> f p = None"
  by (auto simp: os_mkdir_def split: if_splits option.splits node.splits)

lemma execute_submitted:
  assumes "job_id self = Some jid" and "jid \<noteq> []"
    and "wd = truediv (private_processor_dir self) jid"
    and "os_mkdir wd (fs w) = (Inr (), fs1)"
    and "prepare_input env data wd outputs fs1 = (Inr params, fs2)"
    and "remote env (trace w @ [posted self jid params]) = Inr r"
    and "w3 = w\<lparr>fs := fs2, trace := trace w @ [posted self jid params]\<rparr>"
  shows "execute self env data outputs w =
     (if \<not> ok r then Some (submission_failure r wd w3)
      else (case await_info (remote env) self jid r w3 of
              None \<Rightarrow> None
            | Some (Inl e, w4) \<Rightarrow> Some (Inl e, w4)
            | Some (Inr info, w4) \<Rightarrow> Some (conclude env info wd outputs w4)))"
  using assms by (clarsimp simp: execute_def requests_post_def posted_def Let_def)

lemma polls_Suc: "polls self jid (Suc k) = polls self jid 1 @ polls self jid k"
  by (simp add: polls_def)

lemma poll_iteration_reply:
  assumes "0 \<le> polling_time self"
    and "rem (trace w @ polls self jid 1) = Inr r"
  shows "poll_iteration rem self jid w =
     (let w2 = w\<lparr>trace := trace w @ polls self jid 1\<rparr> in
      if \<not> ok r then (Inl (ProcessorExecuteError (Resp r)), w2)
      else (case response_json r of
              Inl e \<Rightarrow> (Inl e, w2)
            | Inr info \<Rightarrow>
                (case job_info_field info ''end_processing'' of
                   Inl e \<Rightarrow> (Inl e, w2)
                 | Inr v \<Rightarrow> if py_truthy v then (Inr (Some info), w2) else (Inr None, w2))))"
  using assms
  by (simp add: poll_iteration_def time_sleep_def requests_get_def polls_def poll_failure_eq
        job_info_field_def Let_def split: sum.split)

lemma poll_iteration_running:
  assumes "0 \<le> polling_time self"
    and "rem (trace w @ polls self jid 1) = Inr r" and "still_running r"
  shows "poll_iteration rem self jid w = (Inr None, w\<lparr>trace := trace w @ polls self jid 1\<rparr>)"
  using assms(3)
  by (auto simp: poll_iteration_reply [where rem=rem and w=w, OF assms(1,2)] still_running_def
        response_json_def Let_def split: option.splits sum.splits)

lemma poll_iteration_again:
  assumes "0 \<le> polling_time self" and "poll_iteration rem self jid w = (Inr None, w')"
  shows "w' = w\<lparr>trace := trace w @ polls self jid 1\<rparr> \<and>
         (\<exists>r. rem (trace w @ polls self jid 1) = Inr r \<and> still_running r)"
proof (cases "rem (trace w @ polls self jid 1)")
  case (Inl e)
  with assms show ?thesis
    by (simp add: poll_iteration_def time_sleep_def requests_get_def polls_def)
next
  case (Inr r)
  with assms(2) show ?thesis
    by (auto simp: poll_iteration_reply [where rem=rem and w=w, OF assms(1) Inr]
          still_running_def response_json_def Let_def split: option.splits sum.splits if_splits)
qed

lemma poll_iteration_break:
  assumes "poll_iteration rem self jid w = (Inr (Some info), w')"
  shows "\<exists>r. rem (trace w') = Inr r \<and> ends_with r info"
  using assms
  by (auto simp: poll_iteration_def time_sleep_def requests_get_def poll_failure_eq ends_with_def
        response_json_def job_info_field_def Let_def
        split: option.splits sum.splits if_splits)

lemma poll_loop_running:
  assumes "0 \<le> polling_time self"
    and "\<forall>j<k. \<exists>r. rem (trace w @ polls self jid (Suc j)) = Inr r \<and> still_running r"
  shows "poll_loop rem self jid w = poll_loop rem self jid (w\<lparr>trace := trace w @ polls self jid k\<rparr>)"
  using assms(2)
proof (induction k arbitrary: w)
  case 0
  then show ?case by (simp add: polls_def)
next
  case (Suc k)
  from Suc.prems obtain r where r: "rem (trace w @ polls self jid 1) = Inr r" "still_running r"
    by (metis One_nat_def zero_less_Suc)
  let ?w1 = "w\<lparr>trace := trace w @ polls self jid 1\<rparr>"
  have step: "poll_loop rem self jid w = poll_loop rem self jid ?w1"
    by (subst poll_loop.simps)
       (simp add: poll_iteration_running [where rem=rem and w=w, OF assms(1) r])
  have "\<forall>j<k. \<exists>r. rem (trace ?w1 @ polls self jid (Suc j)) = Inr r \<and> still_running r"
  proof (intro allI impI)
    fix j assume "j < k"
    then have "Suc j < Suc k" by simp
    with Suc.prems obtain r' where
      "rem (trace w @ polls self jid (Suc (Suc j))) = Inr r'" "still_running r'" by blast
    then show "\<exists>r. rem (trace ?w1 @ polls self jid (Suc j)) = Inr r \<and> still_running r"
      by (simp add: polls_Suc [of self jid "Suc j"])
  qed
  from Suc.IH [OF this] step show ?case
    by (simp add: polls_Suc [of self jid k])
qed

lemma poll_loop_returns:
  assumes "poll_loop rem self jid w = Some y" and pt: "0 \<le> polling_time self"
  shows "\<exists>k. \<not> (\<exists>r. rem (trace w @ polls self jid (Suc k)) = Inr r \<and> still_running r)"
proof -
  have "0 \<le> polling_time self \<longrightarrow>
    (\<exists>k. \<not> (\<exists>r. rem (trace w @ polls self jid (Suc k)) = Inr r \<and> still_running r))"
  proof (rule poll_loop.raw_induct [where P = "\<lambda>rem self jid w y. 0 \<le> polling_time self \<longrightarrow>
      (\<exists>k. \<not> (\<exists>r. rem (trace w @ polls self jid (Suc k)) = Inr r \<and> still_running r))",
      OF _ assms(1)])
    fix loop :: "('a event list \<Rightarrow> exn + response) \<Rightarrow> processor \<Rightarrow> string \<Rightarrow> 'a world \<Rightarrow>
      ((exn + json) \<times> 'a world) option"
    fix rem self jid w y
    assume IH: "\<And>rem self jid w y. loop rem self jid w = Some y \<Longrightarrow>
        0 \<le> polling_time self \<longrightarrow>
        (\<exists>k. \<not> (\<exists>r. rem (trace w @ polls self jid (Suc k)) = Inr r \<and> still_running r))"
      and eq: "(case poll_iteration rem self jid w of
                  (Inl e, w') \<Rightarrow> Some (Inl e, w')
                | (Inr None, w') \<Rightarrow> loop rem self jid w'
                | (Inr (Some info), w') \<Rightarrow> Some (Inr info, w')) = Some y"
    show "0 \<le> polling_time self \<longrightarrow>
      (\<exists>k. \<not> (\<exists>r. rem (trace w @ polls self jid (Suc k)) = Inr r \<and> still_running r))"
    proof (intro impI)
      assume pt: "0 \<le> polling_time self"
      show "\<exists>k. \<not> (\<exists>r. rem (trace w @ polls self jid (Suc k)) = Inr r \<and> still_running r)"
      proof (cases "\<exists>w'. poll_iteration rem self jid w = (Inr None, w')")
        case True
        then obtain w' where it: "poll_iteration rem self jid w = (Inr None, w')" by blast
        from poll_iteration_again [OF pt it]
        have w': "w' = w\<lparr>trace := trace w @ polls self jid 1\<rparr>" by simp
        from eq it have "loop rem self jid w' = Some y" by simp
        from IH [OF this] pt obtain k where
          "\<not> (\<exists>r. rem (trace w' @ polls self jid (Suc k)) = Inr r \<and> still_running r)" by blast
        then have "\<not> (\<exists>r. rem (trace w @ polls self jid (Suc (Suc k))) = Inr r \<and> still_running r)"
          by (simp add: w' polls_Suc [of self jid "Suc k"])
        then show ?thesis by blast
      next
        case False
        have "\<not> (\<exists>r. rem (trace w @ polls self jid (Suc 0)) = Inr r \<and> still_running r)"
        proof
          assume "\<exists>r. rem (trace w @ polls self jid (Suc 0)) = Inr r \<and> still_running r"
          then obtain r where r: "rem (trace w @ polls self jid 1) = Inr r" "still_running r" by auto
          from poll_iteration_running [where rem=rem and w=w, OF pt r] False show False by simp
        qed
        then show ?thesis by blast
      qed
    qed
  qed
  with pt show ?thesis by simp
qed

lemma poll_loop_break:
  assumes "poll_loop rem self jid w = Some y"
  shows "case fst y of Inl e \<Rightarrow> True | Inr info \<Rightarrow> (\<exists>r. rem (trace (snd y)) = Inr r \<and> ends_with r info)"
proof (rule poll_loop.raw_induct [where P = "\<lambda>rem self jid w y.
    case fst y of Inl e \<Rightarrow> True | Inr info \<Rightarrow> (\<exists>r. rem (trace (snd y)) = Inr r \<and> ends_with r info)",
    OF _ assms])
  fix loop :: "('a event list \<Rightarrow> exn + response) \<Rightarrow> processor \<Rightarrow> string \<Rightarrow> 'a world \<Rightarrow>
    ((exn + json) \<times> 'a world) option"
  fix rem self jid w y
  assume IH: "\<And>rem self jid w y. loop rem self jid w = Some y \<Longrightarrow>
      (case fst y of Inl e \<Rightarrow> True | Inr info \<Rightarrow> (\<exists>r. rem (trace (snd y)) = Inr r \<and> ends_with r info))"
    and eq: "(case poll_iteration rem self jid w of
                (Inl e, w') \<Rightarrow> Some (Inl e, w')
              | (Inr None, w') \<Rightarrow> loop rem self jid w'
              | (Inr (Some info), w') \<Rightarrow> Some (Inr info, w')) = Some y"
  from eq show "case fst y of Inl e \<Rightarrow> True
     | Inr info \<Rightarrow> (\<exists>r. rem (trace (snd y)) = Inr r \<and> ends_with r info)"
    by (auto split: prod.splits sum.splits option.splits dest: poll_iteration_break IH)
qed

lemma poll_iteration_frame:
  assumes "poll_iteration rem self jid w = (x, w')"
  shows "fs w' = fs w \<and> error_log w' = error_log w"
  using assms
  by (auto simp: poll_iteration_def time_sleep_def requests_get_def poll_failure_eq Let_def
        split: option.splits sum.splits if_splits)

lemma poll_loop_frame:
  assumes "poll_loop rem self jid w = Some y"
  shows "fs (snd y) = fs w \<and> error_log (snd y) = error_log w"
proof (rule poll_loop.raw_induct [where P = "\<lambda>rem self jid w y.
    fs (snd y) = fs w \<and> error_log (snd y) = error_log w", OF _ assms])
  fix loop :: "('a event list \<Rightarrow> exn + response) \<Rightarrow> processor \<Rightarrow> string \<Rightarrow> 'a world \<Rightarrow>
    ((exn + json) \<times> 'a world) option"
  fix rem self jid w y
  assume IH: "\<And>rem self jid w y. loop rem self jid w = Some y \<Longrightarrow>
      fs (snd y) = fs w \<and> error_log (snd y) = error_log w"
    and eq: "(case poll_iteration rem self jid w of
                (Inl e, w') \<Rightarrow> Some (Inl e, w')
              | (Inr None, w') \<Rightarrow> loop rem self jid w'
              | (Inr (Some info), w') \<Rightarrow> Some (Inr info, w')) = Some y"
  from eq show "fs (snd y) = fs w \<and> error_log (snd y) = error_log w"
    by (auto split: prod.splits sum.splits option.splits dest!: poll_iteration_frame IH)
qed

subsection \<open>The end of \<^verbatim>\<open>execute\<close>\<close>

lemma job_exit_check_failure:
  assumes "py_getitem info ''job_id'' = Inr j"
    and "job_info_field info ''exit_code'' = Inr code" and "py_ne_zero code"
    and "job_info_field info ''std_err'' = Inr se"
  shows "job_exit_check info w =
     (Inl (ProcessorExecuteError (Val (JStr (job_failure_message j code)))),
      w\<lparr>error_log := error_log w @ [job_failure_log j code se]\<rparr>)"
  using assms
  by (auto simp: job_exit_check_def job_info_field_def logging_error_def job_failure_message_def
        job_failure_log_def split: sum.splits)

lemma job_exit_check_nonzero:
  assumes "job_info_field info ''exit_code'' = Inr code" and "py_ne_zero code"
  shows "\<exists>e. fst (job_exit_check info w) = Inl e"
  using assms
  by (auto simp: job_exit_check_def job_info_field_def Let_def split: sum.splits)

lemma job_exit_check_zero:
  assumes "job_info_field info ''exit_code'' = Inr code" and "\<not> py_ne_zero code"
  shows "job_exit_check info w = (Inr (), w)"
  using assms
  by (auto simp: job_exit_check_def job_info_field_def split: sum.splits)

lemma conclude_failure:
  assumes "py_getitem info ''job_id'' = Inr j"
    and "job_info_field info ''exit_code'' = Inr code" and "py_ne_zero code"
    and "job_info_field info ''std_err'' = Inr se"
  shows "conclude env info wd outputs w =
     (Inl (ProcessorExecuteError (Val (JStr (job_failure_message j code)))),
      w\<lparr>error_log := error_log w @ [job_failure_log j code se]\<rparr>)"
  by (simp add: conclude_def job_exit_check_failure [OF assms])

lemma conclude_nonzero:
  assumes "job_info_field info ''exit_code'' = Inr code" and "py_ne_zero code"
  shows "\<exists>e. fst (conclude env info wd outputs w) = Inl e"
  using job_exit_check_nonzero [OF assms, of w]
  by (auto simp: conclude_def split: prod.splits sum.splits)

lemma conclude_zero:
  assumes "job_info_field info ''exit_code'' = Inr code" and "\<not> py_ne_zero code"
    and "prepare_output env info wd outputs (fs w) = (res, fs')"
  shows "conclude env info wd outputs w = (res, w\<lparr>fs := fs'\<rparr>)"
  by (simp add: conclude_def job_exit_check_zero [OF assms(1,2)] assms(3))

lemma execute_terminal:
  assumes "terminal_info self env data outputs w wd info w4"
  shows "execute self env data outputs w = Some (conclude env info wd outputs w4)"
proof -
  from assms obtain jid fs1 params fs2 response where h:
    "job_id self = Some jid" "jid \<noteq> []" "wd = truediv (private_processor_dir self) jid"
    "os_mkdir wd (fs w) = (Inr (), fs1)"
    "prepare_input env data wd outputs fs1 = (Inr params, fs2)"
    "remote env (trace w @ [posted self jid params]) = Inr response"
    and okr: "ok response"
    and aw: "await_info (remote env) self jid response
          (w\<lparr>fs := fs2, trace := trace w @ [posted self jid params]\<rparr>) = Some (Inr info, w4)"
    unfolding terminal_info_def by blast
  show ?thesis
    using execute_submitted [OF h refl] okr aw by simp
qed

subsection \<open>The loop, round by round\<close>

lemma polls_Suc_end: "polls self jid (Suc k) = polls self jid k @ polls self jid 1"
  by (induction k) (simp_all add: polls_def)


lemma poll_loop_ends:
  assumes "0 \<le> polling_time self"
    and "\<forall>j<k. \<exists>r. rem (trace w @ polls self jid (Suc j)) = Inr r \<and> still_running r"
    and "rem (trace w @ polls self jid (Suc k)) = Inr r" and "ends_with r info"
  shows "poll_loop rem self jid w =
     Some (Inr info, w\<lparr>trace := trace w @ polls self jid (Suc k)\<rparr>)"
proof -
  let ?wk = "w\<lparr>trace := trace w @ polls self jid k\<rparr>"
  have r: "rem (trace ?wk @ polls self jid 1) = Inr r"
    using assms(3) by (simp add: polls_Suc_end [of self jid k])
  have "poll_loop rem self jid w = poll_loop rem self jid ?wk"
    by (rule poll_loop_running [OF assms(1,2)])
  also have "\<dots> = Some (Inr info, ?wk\<lparr>trace := trace ?wk @ polls self jid 1\<rparr>)"
    using assms(4)
    by (subst poll_loop.simps)
       (auto simp: poll_iteration_reply [where rem=rem and w="?wk", OF assms(1) r] ends_with_def
          response_json_def split: sum.splits)
  finally show ?thesis
    by (simp add: polls_Suc_end [of self jid k])
qed

lemma poll_loop_never_returns:
  assumes "0 \<le> polling_time self"
    and "\<forall>j. \<exists>r. rem (trace w @ polls self jid (Suc j)) = Inr r \<and> still_running r"
  shows "poll_loop rem self jid w = None"
proof (cases "poll_loop rem self jid w")
  case None
  then show ?thesis .
next
  case (Some y)
  from poll_loop_returns [OF Some assms(1)] assms(2) show ?thesis by blast
qed

subsection \<open>The concrete setting, evaluated\<close>

lemma demo_wd: "truediv ''/data/jobs'' ''abc123'' = ''/data/jobs/abc123''"
  by (simp add: truediv_def posix_join_def splitroot_def path_parts_def format_path_def)

lemma demo_parent: "parent_path ''/data/jobs/abc123'' = ''/data/jobs''"
  by (simp add: parent_path_def splitroot_def path_parts_def format_path_def)

lemma demo_input_path:
  "truediv ''/data/jobs/abc123'' ''input.txt'' = ''/data/jobs/abc123/input.txt''"
  by (simp add: truediv_def posix_join_def splitroot_def path_parts_def format_path_def)

lemma demo_under:
  "under ''/data/jobs/abc123'' ''/data/jobs/abc123/input.txt''"
  "\<not> under ''/data/jobs/abc123'' ''/data/jobs''"
  by (simp_all add: under_def splitroot_def path_parts_def)

lemma demo_mkdir: "os_mkdir ''/data/jobs/abc123'' (fs demo_world) = (Inr (), demo_made)"
  by (simp add: os_mkdir_def demo_parent demo_world_def demo_made_def)

lemma demo_processor_simps:
  "job_id (demo_processor s) = Some ''abc123''"
  "private_processor_dir (demo_processor s) = ''/data/jobs''"
  "polling_time (demo_processor s) = 3"
  "remote_execute_synch (demo_processor s) = s"
  by (simp_all add: demo_processor_def)

lemma demo_working_dir:
  "''/data/jobs/abc123'' = truediv (private_processor_dir (demo_processor s)) ''abc123''"
  by (simp add: demo_processor_def demo_wd)

lemma demo_prepare_input:
  "prepare_input (demo_env rs) ''request'' ''/data/jobs/abc123'' () demo_made =
     (Inr ''request'', demo_staged)"
  by (simp add: demo_env_def stage_input_def demo_input_path demo_staged_def)

lemma demo_prepare_output:
  "prepare_output (demo_env rs) info ''/data/jobs/abc123'' () f =
     (Inr (''application/json'', info), f)"
  by (simp add: demo_env_def return_info_def)

lemma demo_keeps_dir:
  "keeps_dir (prepare_input (demo_env rs) ''request'' ''/data/jobs/abc123'' ()) ''/data/jobs/abc123''"
  "keeps_dir (prepare_output (demo_env rs) info ''/data/jobs/abc123'' ()) ''/data/jobs/abc123''"
  by (simp_all add: keeps_dir_def demo_env_def stage_input_def return_info_def demo_input_path)

lemma demo_first_reply:
  "remote (demo_env (r # rs)) (trace demo_world @ [posted (demo_processor s) ''abc123'' ''request''])
     = Inr r"
  by (simp add: demo_env_def demo_world_def posted_def answer_in_turn_def)

lemma demo_submitted_eq:
  "demo_world\<lparr>fs := demo_staged,
              trace := trace demo_world @ [posted (demo_processor s) ''abc123'' ''request'']\<rparr>
     = demo_submitted s"
  by (simp add: demo_world_def demo_submitted_def)

lemma demo_poll_replies:
  "answer_in_turn (r0 # r1 # rs)
     (trace (demo_submitted s) @ polls (demo_processor s) ''abc123'' (Suc 0)) = Inr r1"
  "answer_in_turn (r0 # r1 # r2 # rs)
     (trace (demo_submitted s) @ polls (demo_processor s) ''abc123'' (Suc (Suc 0))) = Inr r2"
  by (simp_all add: answer_in_turn_def demo_submitted_def polls_def posted_def)

lemma demo_replies:
  "ok (replied info)" "body (replied info) = Some info"
  "\<not> ok bad_params" "\<not> ok unavailable"
  by (simp_all add: ok_def replied_def bad_params_def unavailable_def)

lemma demo_info_fields:
  "py_getitem (job_body kvs) ''job_id'' = Inr (JStr ''abc123'')"
  "job_info_field (job_body kvs) key =
     (case map_of kvs key of None \<Rightarrow> Inl (KeyError key) | Some v \<Rightarrow> Inr v)"
  by (simp_all add: job_body_def job_info_field_def)

lemma demo_still_running: "still_running (replied running_info)"
  by (simp add: still_running_def demo_replies running_info_def demo_info_fields)

lemma demo_ends_with:
  "ends_with (replied succeeded_info) succeeded_info"
  "ends_with (replied (failed_info e)) (failed_info e)"
  by (simp_all add: ends_with_def demo_replies succeeded_info_def failed_info_def demo_info_fields)

lemma demo_terminal_synch:
  "terminal_info (demo_processor True) (demo_env [replied info]) ''request'' () demo_world
     ''/data/jobs/abc123'' info (demo_submitted True)"
  unfolding terminal_info_def
  using demo_processor_simps(1) [of True] demo_working_dir [of True] demo_mkdir
    demo_prepare_input [of "[replied info]"] demo_first_reply [of "replied info" "[]" True]
  by (intro exI [of _ "''abc123''"] exI [of _ demo_made] exI [of _ "''request''"]
        exI [of _ demo_staged] exI [of _ "replied info"])
     (simp add: demo_replies demo_submitted_eq await_info_def response_json_def
        demo_processor_simps)

lemma demo_poll_loop:
  assumes "ends_with r info"
  shows "poll_loop (answer_in_turn [r0, replied running_info, r]) (demo_processor False) ''abc123''
           (demo_submitted False) =
         Some (Inr info, (demo_submitted False)\<lparr>trace := trace (demo_submitted False)
                 @ polls (demo_processor False) ''abc123'' (Suc (Suc 0))\<rparr>)"
proof (rule poll_loop_ends [OF _ _ _ assms])
  show "0 \<le> polling_time (demo_processor False)"
    by (simp add: demo_processor_simps)
  show "\<forall>j<Suc 0. \<exists>ra. answer_in_turn [r0, replied running_info, r]
          (trace (demo_submitted False) @ polls (demo_processor False) ''abc123'' (Suc j)) = Inr ra
        \<and> still_running ra"
    by (simp add: demo_poll_replies demo_still_running)
  show "answer_in_turn [r0, replied running_info, r]
          (trace (demo_submitted False) @ polls (demo_processor False) ''abc123'' (Suc (Suc 0)))
        = Inr r"
    by (simp add: demo_poll_replies)
qed

lemma demo_terminal_polled:
  assumes "ends_with r info"
  shows "terminal_info (demo_processor False)
     (demo_env [replied running_info, replied running_info, r]) ''request'' () demo_world
     ''/data/jobs/abc123'' info
     ((demo_submitted False)\<lparr>trace := trace (demo_submitted False)
         @ polls (demo_processor False) ''abc123'' (Suc (Suc 0))\<rparr>)"
  unfolding terminal_info_def
  using demo_processor_simps(1) [of False] demo_working_dir [of False] demo_mkdir
    demo_prepare_input [of "[replied running_info, replied running_info, r]"]
    demo_first_reply [of "replied running_info" "[replied running_info, r]" False]
    demo_poll_loop [OF assms, of "replied running_info"]
  by (intro exI [of _ "''abc123''"] exI [of _ demo_made] exI [of _ "''request''"]
        exI [of _ demo_staged] exI [of _ "replied running_info"])
     (simp add: demo_replies demo_submitted_eq await_info_def demo_processor_simps demo_env_def)

lemma demo_failed_fields:
  "py_getitem (failed_info e) ''job_id'' = Inr (JStr ''abc123'')"
  "job_info_field (failed_info e) ''exit_code'' = Inr (JInt 1)"
  "job_info_field (failed_info e) ''std_err'' = Inr (JStr e)"
  "py_ne_zero (JInt 1)"
  by (simp_all add: failed_info_def demo_info_fields)

lemma str_int_1: "str_int 1 = ''1''"
  by code_simp

lemma demo_failure_message:
  "job_failure_message (JStr ''abc123'') (JInt 1) =
     ''The job '' @ [CHR 0x27] @ ''abc123'' @ [CHR 0x27] @ '' exited with code 1''"
  by (simp add: job_failure_message_def str_int_1)

lemma keeps_dirD:
  assumes "keeps_dir hook d" and "f d = Some Dir" and "hook f = (r, f')"
  shows "f' d = Some Dir"
proof -
  from assms(1) have "\<forall>f. f d = Some Dir \<longrightarrow> snd (hook f) d = Some Dir"
    unfolding keeps_dir_def .
  then have "f d = Some Dir \<longrightarrow> snd (hook f) d = Some Dir" by (rule spec)
  with assms(2,3) show ?thesis by simp
qed

section \<open>The claims\<close>

text \<open>
  In the statements below an execution is described step by step: the job id \<open>jid\<close> is
  bound, \<open>wd\<close> is the working directory \<^verbatim>\<open>str(private_processor_dir / job_id)\<close>,
  \<^verbatim>\<open>os.mkdir\<close> makes it and leaves the file system \<open>fs1\<close>, \<^verbatim>\<open>prepare_input\<close> returns
  \<open>params\<close> or raises and leaves \<open>fs2\<close>, and the remote executor answers the request
  \<open>posted self jid params\<close>. The value of \<open>execute\<close> is \<open>Some (Inl e, w')\<close> when the
  method raises \<open>e\<close> and \<open>Some (Inr r, w')\<close> when it returns \<open>r\<close>, leaving the world \<open>w'\<close>.
\<close>

text \<open>
  \<^bold>\<open>Claim C1\<close> says that a submission answered with a status that is not a success and a
  JSON body with a \<^verbatim>\<open>Message\<close> field makes \<^verbatim>\<open>execute\<close> raise an error whose message is
  that field, as in the scenario of status 400 with body \<^verbatim>\<open>{"Message": "bad params"}\<close>.
  The method does read the field and does raise \<^verbatim>\<open>ProcessorExecuteError(message)\<close>, but it
  raises it inside the \<^verbatim>\<open>try\<close> block whose handler is \<^verbatim>\<open>except Exception\<close>, so the handler
  written for a missing message catches it and raises \<^verbatim>\<open>ProcessorExecuteError(response)\<close>
  in its place. In the scenario the statements of the \<^verbatim>\<open>try\<close> block end with the error of
  message \<^verbatim>\<open>bad params\<close>, and what \<^verbatim>\<open>execute\<close> raises carries the response object, not
  that message.
\<close>

theorem submission_message_lost:
  "raise_message bad_params = ProcessorExecuteError (Val (JStr ''bad params''))
   \<and> map_option fst
        (execute (demo_processor True) (demo_env [bad_params]) ''request'' () demo_world) =
      Some (Inl (ProcessorExecuteError (Resp bad_params)))
   \<and> map_option fst
        (execute (demo_processor True) (demo_env [bad_params]) ''request'' () demo_world) \<noteq>
      Some (Inl (ProcessorExecuteError (Val (JStr ''bad params''))))"
proof -
  have "execute (demo_processor True) (demo_env [bad_params]) ''request'' () demo_world =
      Some (submission_failure bad_params ''/data/jobs/abc123'' (demo_submitted True))"
    using execute_submitted [OF demo_processor_simps(1) [of True] _ demo_working_dir [of True]
        demo_mkdir demo_prepare_input [of "[bad_params]"] demo_first_reply [of bad_params "[]" True]
        refl]
    by (simp add: demo_replies demo_submitted_eq)
  then have raised: "map_option fst
        (execute (demo_processor True) (demo_env [bad_params]) ''request'' () demo_world) =
      Some (Inl (ProcessorExecuteError (Resp bad_params)))"
    by (simp add: submission_failure_eq)
  have tried: "raise_message bad_params = ProcessorExecuteError (Val (JStr ''bad params''))"
    by (simp add: raise_message_def response_json_def bad_params_def)
  have "map_option fst
        (execute (demo_processor True) (demo_env [bad_params]) ''request'' () demo_world) \<noteq>
      Some (Inl (ProcessorExecuteError (Val (JStr ''bad params''))))"
    unfolding raised by simp
  with raised tried show ?thesis by blast
qed





text \<open>
  \<^bold>\<open>Claim C4\<close>: when the terminal job information, reached by either path, has an exit
  code that is not zero, \<^verbatim>\<open>execute\<close> raises \<^verbatim>\<open>ProcessorExecuteError\<close> with the message
  \<open>job_failure_message j code\<close>, a text made of the job id \<open>j\<close> and the exit code \<open>code\<close>
  alone; the text of \<^verbatim>\<open>std_err\<close> goes to the error log only. Hence two executions that
  differ in what the remote executor reports, but end with the same job id and the same
  exit code, raise the same error to the caller whatever their two \<^verbatim>\<open>std_err\<close> texts are.
\<close>

theorem job_failure_hides_std_err:
  assumes "terminal_info self env data outputs w wd info w4"
    and "py_getitem info ''job_id'' = Inr j"
    and "job_info_field info ''exit_code'' = Inr code" and "py_ne_zero code"
    and "job_info_field info ''std_err'' = Inr se"
  shows "execute self env data outputs w =
           Some (Inl (ProcessorExecuteError (Val (JStr (job_failure_message j code)))),
                 w4\<lparr>error_log := error_log w4 @ [job_failure_log j code se]\<rparr>)
         \<and> (\<forall>env' info' w4' se'.
               terminal_info self env' data outputs w wd info' w4' \<and>
               py_getitem info' ''job_id'' = Inr j \<and>
               job_info_field info' ''exit_code'' = Inr code \<and>
               job_info_field info' ''std_err'' = Inr se' \<longrightarrow>
               map_option fst (execute self env' data outputs w) =
               map_option fst (execute self env data outputs w))"
proof -
  have run: "execute self env' data outputs w =
           Some (Inl (ProcessorExecuteError (Val (JStr (job_failure_message j code)))),
                 w4'\<lparr>error_log := error_log w4' @ [job_failure_log j code se']\<rparr>)"
    if "terminal_info self env' data outputs w wd info' w4'"
      and "py_getitem info' ''job_id'' = Inr j"
      and "job_info_field info' ''exit_code'' = Inr code"
      and "job_info_field info' ''std_err'' = Inr se'"
    for env' :: "('a, 'b, 'c, 'd) env" and info' w4' se'
    using execute_terminal [OF that(1)] conclude_failure [OF that(2,3) assms(4) that(4)]
    by simp
  from run [OF assms(1,2,3,5)] show ?thesis
    by (auto simp: run)
qed

theorem job_failure_hides_std_err_witness:
  "map_option fst
     (execute (demo_processor False)
        (demo_env [replied running_info, replied running_info, replied (failed_info ''boom'')])
        ''request'' () demo_world) =
   Some (Inl (ProcessorExecuteError (Val (JStr
           (''The job '' @ [CHR 0x27] @ ''abc123'' @ [CHR 0x27] @ '' exited with code 1'')))))
   \<and> map_option (error_log \<circ> snd)
     (execute (demo_processor False)
        (demo_env [replied running_info, replied running_info, replied (failed_info ''boom'')])
        ''request'' () demo_world) =
   Some [''The job '' @ [CHR 0x27] @ ''abc123'' @ [CHR 0x27] @ '' exited with code: 1''
         @ [CHR 0x0A] @ ''Error message:'' @ [CHR 0x0A] @ ''boom'']
   \<and> map_option fst
     (execute (demo_processor False)
        (demo_env [replied running_info, replied running_info,
                   replied (failed_info ''disk /srv/secret is full'')])
        ''request'' () demo_world) =
     map_option fst
     (execute (demo_processor False)
        (demo_env [replied running_info, replied running_info, replied (failed_info ''boom'')])
        ''request'' () demo_world)"
proof -
  note T = job_failure_hides_std_err [OF demo_terminal_polled [OF demo_ends_with(2) [of "''boom''"]]
      demo_failed_fields(1,2,4,3)]
  from T [THEN conjunct1]
  have first: "execute (demo_processor False)
        (demo_env [replied running_info, replied running_info, replied (failed_info ''boom'')])
        ''request'' () demo_world =
      Some (Inl (ProcessorExecuteError (Val (JStr (job_failure_message (JStr ''abc123'') (JInt 1))))),
        (demo_submitted False)\<lparr>trace := trace (demo_submitted False)
            @ polls (demo_processor False) ''abc123'' (Suc (Suc 0)),
          error_log := error_log (demo_submitted False) @
             [job_failure_log (JStr ''abc123'') (JInt 1) (JStr ''boom'')]\<rparr>)"
    by simp
  from T [THEN conjunct2, rule_format,
      of "demo_env [replied running_info, replied running_info,
                    replied (failed_info ''disk /srv/secret is full'')]"
         "failed_info ''disk /srv/secret is full''" _ "JStr ''disk /srv/secret is full''"]
    demo_terminal_polled [OF demo_ends_with(2), of "''disk /srv/secret is full''"]
  have second: "map_option fst
     (execute (demo_processor False)
        (demo_env [replied running_info, replied running_info,
                   replied (failed_info ''disk /srv/secret is full'')])
        ''request'' () demo_world) =
     map_option fst
     (execute (demo_processor False)
        (demo_env [replied running_info, replied running_info, replied (failed_info ''boom'')])
        ''request'' () demo_world)"
    by (simp add: demo_failed_fields)
  have log: "job_failure_log (JStr ''abc123'') (JInt 1) (JStr ''boom'') =
      ''The job '' @ [CHR 0x27] @ ''abc123'' @ [CHR 0x27] @ '' exited with code: 1''
         @ [CHR 0x0A] @ ''Error message:'' @ [CHR 0x0A] @ ''boom''"
    by (simp add: job_failure_log_def str_int_1)
  show ?thesis
    unfolding second
    by (simp add: first demo_failure_message log demo_submitted_def)
qed

text \<open>
  \<^bold>\<open>Claim C5\<close>: called while no job id is bound (\<open>job_id\<close> is \<open>None\<close>, as it is until
  \<^verbatim>\<open>set_job_id\<close> is called, or is the empty string), \<^verbatim>\<open>execute\<close> raises
  \<^verbatim>\<open>ProcessorGenericError\<close> and leaves the world as it found it: no directory is made
  and no request is sent.
\<close>

theorem execute_without_job_id:
  assumes "job_id self = None \<or> job_id self = Some []"
  shows "execute self env data outputs w = Some (Inl missing_job_id, w)"
  using assms by (auto simp: execute_def)

theorem execute_without_job_id_witness:
  "job_id ((demo_processor True)\<lparr>job_id := None\<rparr>) = None \<and>
   execute ((demo_processor True)\<lparr>job_id := None\<rparr>) (demo_env []) ''request'' () demo_world =
     Some (Inl (ProcessorGenericError (Val (JStr
        (''Missing call to '' @ [CHR 0x27] @ ''set_job_id()'' @ [CHR 0x27] @ '' before ''
         @ [CHR 0x27] @ ''execute()'' @ [CHR 0x27] @ ''.'')))), demo_world)"
  using execute_without_job_id [of "(demo_processor True)\<lparr>job_id := None\<rparr>" "demo_env []"
      "''request''" "()" demo_world]
  by (simp add: missing_job_id_def)

text \<open>
  \<^bold>\<open>Claim C6\<close> says that whenever \<^verbatim>\<open>prepare_input\<close> raises an error, \<^verbatim>\<open>execute\<close> destroys
  the working directory and raises that same error. The handler of lines 165 to 167 calls
  \<^verbatim>\<open>shutil.rmtree(working_dir)\<close> before \<^verbatim>\<open>raise ex\<close>, and \<^verbatim>\<open>shutil.rmtree\<close> itself raises
  when there is no directory at that path. So for a hook that has removed the working
  directory before it raises, the error of \<^verbatim>\<open>execute\<close> is the \<^verbatim>\<open>FileNotFoundError\<close> of the
  removal and the error of the hook is not raised: below the hook raises
  \<^verbatim>\<open>ValueError\<close> and \<^verbatim>\<open>execute\<close> raises \<^verbatim>\<open>FileNotFoundError\<close>.
\<close>

theorem prepare_input_error_masked:
  "prepare_input ((demo_env [])\<lparr>prepare_input := withdrawn_input\<rparr>) ''request''
      ''/data/jobs/abc123'' () demo_made = (Inl ValueError, fs demo_world)
   \<and> execute (demo_processor True) ((demo_env [])\<lparr>prepare_input := withdrawn_input\<rparr>)
        ''request'' () demo_world =
       Some (Inl (FileNotFoundError ''/data/jobs/abc123''), demo_world)
   \<and> FileNotFoundError ''/data/jobs/abc123'' \<noteq> ValueError"
proof -
  have unmade: "demo_made(''/data/jobs/abc123'' := None) = fs demo_world"
    by (simp add: demo_made_def demo_world_def)
  have raised: "prepare_input ((demo_env [])\<lparr>prepare_input := withdrawn_input\<rparr>) ''request''
      ''/data/jobs/abc123'' () demo_made = (Inl ValueError, fs demo_world)"
    by (simp add: withdrawn_input_def unmade)
  have gone: "fs demo_world ''/data/jobs/abc123'' = None"
    by (simp add: demo_world_def)
  have "execute (demo_processor True) ((demo_env [])\<lparr>prepare_input := withdrawn_input\<rparr>)
        ''request'' () demo_world =
       Some (Inl (FileNotFoundError ''/data/jobs/abc123''), demo_world)"
    using demo_mkdir raised gone
    by (simp add: execute_def Let_def demo_processor_simps demo_wd shutil_rmtree_def)
  with raised show ?thesis by simp
qed

text \<open>
  \<^bold>\<open>Claim C6\<close>, with the condition it needs: when \<^verbatim>\<open>prepare_input\<close> raises an exception
  \<open>ex\<close>, of any class, also one that is not an \<^verbatim>\<open>Exception\<close>, and the working directory is
  still a directory at that moment (\<open>fs2 wd = Some Dir\<close>), \<^verbatim>\<open>execute\<close> removes the working
  directory with all it holds and raises \<open>ex\<close> itself; it sends no request.
\<close>

theorem execute_prepare_input_raises:
  assumes "job_id self = Some jid" and "jid \<noteq> []"
    and "wd = truediv (private_processor_dir self) jid"
    and "os_mkdir wd (fs w) = (Inr (), fs1)"
    and "prepare_input env data wd outputs fs1 = (Inl ex, fs2)"
    and "fs2 wd = Some Dir"
  shows "execute self env data outputs w =
           Some (Inl ex, w\<lparr>fs := (\<lambda>q. if under wd q then None else fs2 q)\<rparr>)"
  using assms by (simp add: execute_def Let_def rmtree_dir)

theorem execute_prepare_input_raises_witness:
  "\<not> is_Exception KeyboardInterrupt \<and>
   (\<exists>w'. execute (demo_processor True) ((demo_env [])\<lparr>prepare_input := interrupted_input\<rparr>)
            ''request'' () demo_world = Some (Inl KeyboardInterrupt, w')
        \<and> fs w' ''/data/jobs/abc123'' = None
        \<and> fs w' ''/data/jobs/abc123/input.txt'' = None
        \<and> fs w' ''/data/jobs'' = Some Dir
        \<and> trace w' = [])"
proof -
  have raised: "prepare_input ((demo_env [])\<lparr>prepare_input := interrupted_input\<rparr>) ''request''
      ''/data/jobs/abc123'' () demo_made = (Inl KeyboardInterrupt, demo_staged)"
    by (simp add: interrupted_input_def demo_input_path demo_staged_def)
  have kept: "demo_staged ''/data/jobs/abc123'' = Some Dir"
    by (simp add: demo_staged_def demo_made_def)
  from execute_prepare_input_raises [OF demo_processor_simps(1) [of True] _
      demo_working_dir [of True] demo_mkdir raised kept]
  show ?thesis
    by (simp add: under_refl demo_under demo_staged_def demo_made_def demo_world_def)
qed

text \<open>
  \<^bold>\<open>Claim C7\<close>, in four parts. First, when the loop ends with a job information \<open>info\<close>,
  the last reply received is a success whose body is \<open>info\<close> and whose
  \<^verbatim>\<open>job_info.end_processing\<close> is true (the loop tests the truth value of the field, which
  for the boolean of the data model is the comparison with \<^verbatim>\<open>true\<close>). Second, the number of
  rounds is not bounded: after any number \<open>k\<close> of replies of a job still running, a reply
  with \<^verbatim>\<open>end_processing\<close> true ends the loop at round \<open>k + 1\<close>. Third, when every reply is
  that of a job still running, the loop never returns. Fourth, when the terminal job
  information, reached by either path, has an exit code that is not zero, \<^verbatim>\<open>execute\<close>
  raises an error whatever the other fields are, and it is the job failure error as soon
  as the fields \<^verbatim>\<open>job_id\<close> and \<^verbatim>\<open>std_err\<close>, which the two messages quote, are present.
\<close>

theorem poll_loop_sole_exit:
  "(poll_loop rem self jid w = Some (Inr info, w') \<longrightarrow>
      (\<exists>r. rem (trace w') = Inr r \<and> ends_with r info))
   \<and> (0 \<le> polling_time self \<and>
      (\<forall>j<k. \<exists>r. rem (trace w @ polls self jid (Suc j)) = Inr r \<and> still_running r) \<and>
      rem (trace w @ polls self jid (Suc k)) = Inr r1 \<and> ends_with r1 info1 \<longrightarrow>
      poll_loop rem self jid w =
        Some (Inr info1, w\<lparr>trace := trace w @ polls self jid (Suc k)\<rparr>))
   \<and> (0 \<le> polling_time self \<and>
      (\<forall>j. \<exists>r. rem (trace w @ polls self jid (Suc j)) = Inr r \<and> still_running r) \<longrightarrow>
      poll_loop rem self jid w = None)
   \<and> (terminal_info self env data outputs w0 wd info2 w4 \<and>
      job_info_field info2 ''exit_code'' = Inr code \<and> py_ne_zero code \<longrightarrow>
      (\<exists>e w5. execute self env data outputs w0 = Some (Inl e, w5) \<and>
         (\<forall>j se. py_getitem info2 ''job_id'' = Inr j \<and>
                  job_info_field info2 ''std_err'' = Inr se \<longrightarrow>
                  e = ProcessorExecuteError (Val (JStr (job_failure_message j code))))))"
proof (intro conjI impI)
  assume "poll_loop rem self jid w = Some (Inr info, w')"
  from poll_loop_break [OF this] show "\<exists>r. rem (trace w') = Inr r \<and> ends_with r info"
    by simp
next
  assume "0 \<le> polling_time self \<and>
      (\<forall>j<k. \<exists>r. rem (trace w @ polls self jid (Suc j)) = Inr r \<and> still_running r) \<and>
      rem (trace w @ polls self jid (Suc k)) = Inr r1 \<and> ends_with r1 info1"
  then have "0 \<le> polling_time self"
    and "\<forall>j<k. \<exists>r. rem (trace w @ polls self jid (Suc j)) = Inr r \<and> still_running r"
    and "rem (trace w @ polls self jid (Suc k)) = Inr r1" and "ends_with r1 info1"
    by simp_all
  then show "poll_loop rem self jid w =
      Some (Inr info1, w\<lparr>trace := trace w @ polls self jid (Suc k)\<rparr>)"
    by (rule poll_loop_ends)
next
  assume "0 \<le> polling_time self \<and>
      (\<forall>j. \<exists>r. rem (trace w @ polls self jid (Suc j)) = Inr r \<and> still_running r)"
  then have "0 \<le> polling_time self"
    and "\<forall>j. \<exists>r. rem (trace w @ polls self jid (Suc j)) = Inr r \<and> still_running r"
    by simp_all
  then show "poll_loop rem self jid w = None"
    by (rule poll_loop_never_returns)
next
  assume a: "terminal_info self env data outputs w0 wd info2 w4 \<and>
      job_info_field info2 ''exit_code'' = Inr code \<and> py_ne_zero code"
  then have ex: "execute self env data outputs w0 = Some (conclude env info2 wd outputs w4)"
    by (simp add: execute_terminal)
  from a conclude_nonzero [of info2 code env wd outputs w4]
  obtain e where e: "fst (conclude env info2 wd outputs w4) = Inl e" by blast
  have "e = ProcessorExecuteError (Val (JStr (job_failure_message j code)))"
    if "py_getitem info2 ''job_id'' = Inr j" "job_info_field info2 ''std_err'' = Inr se" for j se
    using conclude_failure [OF that(1) _ _ that(2), of code env wd outputs w4] a e by simp
  with ex e show "\<exists>e w5. execute self env data outputs w0 = Some (Inl e, w5) \<and>
         (\<forall>j se. py_getitem info2 ''job_id'' = Inr j \<and>
                  job_info_field info2 ''std_err'' = Inr se \<longrightarrow>
                  e = ProcessorExecuteError (Val (JStr (job_failure_message j code))))"
    by (cases "conclude env info2 wd outputs w4") auto
qed

theorem poll_loop_sole_exit_witness:
  "poll_loop (answer_in_turn [replied running_info, replied running_info,
                              replied (failed_info ''boom'')])
     (demo_processor False) ''abc123'' (demo_submitted False) =
     Some (Inr (failed_info ''boom''),
           (demo_submitted False)\<lparr>trace := trace (demo_submitted False)
              @ polls (demo_processor False) ''abc123'' (Suc (Suc 0))\<rparr>)
   \<and> (\<exists>r. answer_in_turn [replied running_info, replied running_info,
                           replied (failed_info ''boom'')]
             (trace (demo_submitted False)
              @ polls (demo_processor False) ''abc123'' (Suc (Suc 0))) = Inr r
          \<and> ends_with r (failed_info ''boom''))
   \<and> poll_loop (\<lambda>tr. Inr (replied running_info)) (demo_processor False) ''abc123''
        (demo_submitted False) = None
   \<and> (\<exists>w5. execute (demo_processor False)
              (demo_env [replied running_info, replied running_info,
                         replied (failed_info ''boom'')])
              ''request'' () demo_world =
            Some (Inl (ProcessorExecuteError (Val (JStr
                    (''The job '' @ [CHR 0x27] @ ''abc123'' @ [CHR 0x27]
                     @ '' exited with code 1'')))), w5))"
proof -
  let ?rs = "[replied running_info, replied running_info, replied (failed_info ''boom'')]"
  let ?p = "demo_processor False"
  let ?w = "demo_submitted False"
  let ?w' = "?w\<lparr>trace := trace ?w @ polls ?p ''abc123'' (Suc (Suc 0))\<rparr>"
  note T = poll_loop_sole_exit [where rem = "answer_in_turn ?rs" and self = ?p
      and jid = "''abc123''" and w = ?w and info = "failed_info ''boom''" and w' = ?w'
      and k = "Suc 0" and ?r1.0 = "replied (failed_info ''boom'')"
      and ?info1.0 = "failed_info ''boom''" and env = "demo_env ?rs" and data = "''request''"
      and outputs = "()" and ?w0.0 = demo_world and wd = "''/data/jobs/abc123''"
      and ?info2.0 = "failed_info ''boom''" and ?w4.0 = ?w' and code = "JInt 1"]
  have rounds: "0 \<le> polling_time ?p \<and>
      (\<forall>j<Suc 0. \<exists>r. answer_in_turn ?rs (trace ?w @ polls ?p ''abc123'' (Suc j)) = Inr r
          \<and> still_running r) \<and>
      answer_in_turn ?rs (trace ?w @ polls ?p ''abc123'' (Suc (Suc 0)))
        = Inr (replied (failed_info ''boom'')) \<and>
      ends_with (replied (failed_info ''boom'')) (failed_info ''boom'')"
    by (simp add: demo_processor_simps demo_poll_replies demo_still_running demo_ends_with)
  from T [THEN conjunct2, THEN conjunct1, THEN mp, OF rounds]
  have ended: "poll_loop (answer_in_turn ?rs) ?p ''abc123'' ?w = Some (Inr (failed_info ''boom''), ?w')" .
  from T [THEN conjunct1, THEN mp, OF ended]
  have last: "\<exists>r. answer_in_turn ?rs (trace ?w') = Inr r \<and> ends_with r (failed_info ''boom'')" .
  have forever: "0 \<le> polling_time ?p \<and>
      (\<forall>j. \<exists>r. (\<lambda>tr. Inr (replied running_info)) (trace ?w @ polls ?p ''abc123'' (Suc j)) = Inr r
          \<and> still_running r)"
    by (simp add: demo_processor_simps demo_still_running)
  from poll_loop_sole_exit [where rem = "\<lambda>tr. Inr (replied running_info)" and self = ?p
      and jid = "''abc123''" and w = ?w, THEN conjunct2, THEN conjunct2, THEN conjunct1, THEN mp,
      OF forever]
  have never: "poll_loop (\<lambda>tr. Inr (replied running_info)) ?p ''abc123'' ?w = None" .
  have reached: "terminal_info ?p (demo_env ?rs) ''request'' () demo_world ''/data/jobs/abc123''
        (failed_info ''boom'') ?w' \<and>
      job_info_field (failed_info ''boom'') ''exit_code'' = Inr (JInt 1) \<and> py_ne_zero (JInt 1)"
    by (simp add: demo_terminal_polled [OF demo_ends_with(2)] demo_failed_fields)
  from T [THEN conjunct2, THEN conjunct2, THEN conjunct2, THEN mp, OF reached]
  obtain e w5 where ex: "execute ?p (demo_env ?rs) ''request'' () demo_world = Some (Inl e, w5)"
    and e: "\<forall>j se. py_getitem (failed_info ''boom'') ''job_id'' = Inr j \<and>
                  job_info_field (failed_info ''boom'') ''std_err'' = Inr se \<longrightarrow>
                  e = ProcessorExecuteError (Val (JStr (job_failure_message j (JInt 1))))"
    by blast
  from e have "e = ProcessorExecuteError (Val (JStr
      (job_failure_message (JStr ''abc123'') (JInt 1))))"
    by (simp add: demo_failed_fields)
  with ex have "\<exists>w5. execute ?p (demo_env ?rs) ''request'' () demo_world =
      Some (Inl (ProcessorExecuteError (Val (JStr
              (''The job '' @ [CHR 0x27] @ ''abc123'' @ [CHR 0x27] @ '' exited with code 1'')))),
            w5)"
    by (simp add: demo_failure_message)
  with ended last never show ?thesis by simp
qed

text \<open>
  \<^bold>\<open>Claim C8\<close>: in synchronous mode, for a request that is submitted with success and
  whose job ended with exit code zero, the body of the submission response is the terminal
  job information: the submission is the only request \<^verbatim>\<open>execute\<close> makes, its result \<open>res\<close>
  is what \<^verbatim>\<open>prepare_output\<close> gives for that body (the pair of mimetype and outputs when
  the hook returns), and the working directory is still there afterwards, the two hooks
  being hooks that leave it in place.
\<close>

theorem execute_synchronous:
  assumes "job_id self = Some jid" and "jid \<noteq> []"
    and "wd = truediv (private_processor_dir self) jid"
    and "os_mkdir wd (fs w) = (Inr (), fs1)"
    and "prepare_input env data wd outputs fs1 = (Inr params, fs2)"
    and "remote env (trace w @ [posted self jid params]) = Inr response"
    and "remote_execute_synch self"
    and "ok response" and "body response = Some info"
    and "job_info_field info ''exit_code'' = Inr code" and "\<not> py_ne_zero code"
    and "prepare_output env info wd outputs fs2 = (res, fs3)"
    and "keeps_dir (prepare_input env data wd outputs) wd"
    and "keeps_dir (prepare_output env info wd outputs) wd"
  shows "execute self env data outputs w =
           Some (res, w\<lparr>fs := fs3, trace := trace w @ [posted self jid params]\<rparr>)
         \<and> fs3 wd = Some Dir"
proof -
  let ?w3 = "w\<lparr>fs := fs2, trace := trace w @ [posted self jid params]\<rparr>"
  have "await_info (remote env) self jid response ?w3 = Some (Inr info, ?w3)"
    using assms(7,9) by (simp add: await_info_def response_json_def)
  with execute_submitted [OF assms(1-6) refl] assms(8)
  have "execute self env data outputs w = Some (conclude env info wd outputs ?w3)"
    by simp
  moreover have "conclude env info wd outputs ?w3 = (res, ?w3\<lparr>fs := fs3\<rparr>)"
    by (rule conclude_zero [OF assms(10,11)]) (simp add: assms(12))
  ultimately have ex: "execute self env data outputs w =
      Some (res, w\<lparr>fs := fs3, trace := trace w @ [posted self jid params]\<rparr>)"
    by simp
  have "fs1 wd = Some Dir"
    using mkdir_ok [OF assms(4)] by simp
  then have "fs2 wd = Some Dir"
    by (rule keeps_dirD [OF assms(13) _ assms(5)])
  then have "fs3 wd = Some Dir"
    by (rule keeps_dirD [OF assms(14) _ assms(12)])
  with ex show ?thesis by simp
qed

theorem execute_synchronous_witness:
  "execute (demo_processor True) (demo_env [replied succeeded_info]) ''request'' () demo_world =
     Some (Inr (''application/json'', succeeded_info), demo_submitted True)
   \<and> trace (demo_submitted True) = [posted (demo_processor True) ''abc123'' ''request'']
   \<and> fs (demo_submitted True) ''/data/jobs/abc123'' = Some Dir
   \<and> fs (demo_submitted True) ''/data/jobs/abc123/input.txt'' = Some (File ''request'')"
proof -
  have zero: "job_info_field succeeded_info ''exit_code'' = Inr (JInt 0)" "\<not> py_ne_zero (JInt 0)"
    by (simp_all add: succeeded_info_def demo_info_fields)
  from execute_synchronous [OF demo_processor_simps(1) [of True] _ demo_working_dir [of True]
      demo_mkdir demo_prepare_input [of "[replied succeeded_info]"]
      demo_first_reply [of "replied succeeded_info" "[]" True] _
      demo_replies(1) demo_replies(2) zero
      demo_prepare_output [of "[replied succeeded_info]" succeeded_info demo_staged]
      demo_keeps_dir(1) demo_keeps_dir(2)]
  show ?thesis
    by (simp add: demo_processor_simps demo_submitted_eq)
       (simp add: demo_submitted_def demo_staged_def demo_made_def)
qed

text \<open>
  \<^bold>\<open>Claim C9\<close>: when there is already something at the path of the working directory of
  the bound job id, \<^verbatim>\<open>execute\<close> raises \<^verbatim>\<open>FileExistsError\<close> and leaves the world as it
  found it: the directory that was there and all it holds are untouched, no hook is called
  and no request is sent.
\<close>

theorem execute_existing_directory:
  assumes "job_id self = Some jid" and "jid \<noteq> []"
    and "wd = truediv (private_processor_dir self) jid"
    and "fs w wd \<noteq> None"
  shows "execute self env data outputs w = Some (Inl (FileExistsError wd), w)"
  using assms by (simp add: execute_def os_mkdir_def Let_def)

theorem execute_existing_directory_witness:
  "fs occupied_world ''/data/jobs/abc123'' = Some Dir \<and>
   fs occupied_world ''/data/jobs/abc123/input.txt'' = Some (File ''earlier request'') \<and>
   execute (demo_processor True) (demo_env []) ''request'' () occupied_world =
     Some (Inl (FileExistsError ''/data/jobs/abc123''), occupied_world)"
proof -
  have there: "fs occupied_world ''/data/jobs/abc123'' \<noteq> None"
    by (simp add: occupied_world_def)
  from execute_existing_directory [OF demo_processor_simps(1) [of True] _
      demo_working_dir [of True] there, of "demo_env []" "''request''" "()"]
  show ?thesis by (simp add: occupied_world_def)
qed

text \<open>
  \<^bold>\<open>Claim C10\<close>: in synchronous mode the body \<open>info\<close> of an accepted submission goes
  straight to the check of the exit code, with no request for the job information and no
  look at \<^verbatim>\<open>job_info.end_processing\<close>: \<^verbatim>\<open>execute\<close> is \<open>conclude\<close> at that body, for every
  body. In particular a body whose exit code is not zero makes \<^verbatim>\<open>execute\<close> raise the job
  failure error, also when \<^verbatim>\<open>end_processing\<close> is false or is missing from \<^verbatim>\<open>job_info\<close>.
\<close>

theorem synchronous_ignores_end_processing:
  assumes "job_id self = Some jid" and "jid \<noteq> []"
    and "wd = truediv (private_processor_dir self) jid"
    and "os_mkdir wd (fs w) = (Inr (), fs1)"
    and "prepare_input env data wd outputs fs1 = (Inr params, fs2)"
    and "remote env (trace w @ [posted self jid params]) = Inr response"
    and "remote_execute_synch self"
    and "ok response" and "body response = Some info"
    and "w3 = w\<lparr>fs := fs2, trace := trace w @ [posted self jid params]\<rparr>"
  shows "execute self env data outputs w = Some (conclude env info wd outputs w3)
         \<and> (\<forall>j code se.
               py_getitem info ''job_id'' = Inr j \<and>
               job_info_field info ''exit_code'' = Inr code \<and> py_ne_zero code \<and>
               job_info_field info ''std_err'' = Inr se \<longrightarrow>
               execute self env data outputs w =
                 Some (Inl (ProcessorExecuteError (Val (JStr (job_failure_message j code)))),
                       w3\<lparr>error_log := error_log w3 @ [job_failure_log j code se]\<rparr>))"
proof -
  have "await_info (remote env) self jid response w3 = Some (Inr info, w3)"
    using assms(7,9) by (simp add: await_info_def response_json_def)
  with execute_submitted [OF assms(1-6) assms(10)] assms(8)
  have ex: "execute self env data outputs w = Some (conclude env info wd outputs w3)"
    by simp
  then show ?thesis
    by (simp add: conclude_failure)
qed

theorem synchronous_ignores_end_processing_witness:
  "job_info_field (unended_info []) ''end_processing'' = Inl (KeyError ''end_processing'')
   \<and> execute (demo_processor True) (demo_env [replied (unended_info [])]) ''request'' ()
        demo_world =
      Some (Inl (ProcessorExecuteError (Val (JStr
              (''The job '' @ [CHR 0x27] @ ''abc123'' @ [CHR 0x27] @ '' exited with code 1'')))),
            (demo_submitted True)\<lparr>error_log :=
               [job_failure_log (JStr ''abc123'') (JInt 1) (JStr ''boom'')]\<rparr>)
   \<and> job_info_field (unended_info [(''end_processing'', JBool False)]) ''end_processing'' =
        Inr (JBool False)
   \<and> execute (demo_processor True)
        (demo_env [replied (unended_info [(''end_processing'', JBool False)])]) ''request'' ()
        demo_world =
      Some (Inl (ProcessorExecuteError (Val (JStr
              (''The job '' @ [CHR 0x27] @ ''abc123'' @ [CHR 0x27] @ '' exited with code 1'')))),
            (demo_submitted True)\<lparr>error_log :=
               [job_failure_log (JStr ''abc123'') (JInt 1) (JStr ''boom'')]\<rparr>)"
proof -
  have fields: "py_getitem (unended_info ep) ''job_id'' = Inr (JStr ''abc123'')"
    "py_ne_zero (JInt 1)" for ep
    by (simp_all add: unended_info_def demo_info_fields)
  have absent:
    "job_info_field (unended_info []) ''end_processing'' = Inl (KeyError ''end_processing'')"
    "job_info_field (unended_info []) ''exit_code'' = Inr (JInt 1)"
    "job_info_field (unended_info []) ''std_err'' = Inr (JStr ''boom'')"
    by (simp_all add: unended_info_def demo_info_fields)
  have false:
    "job_info_field (unended_info [(''end_processing'', JBool False)]) ''end_processing'' =
       Inr (JBool False)"
    "job_info_field (unended_info [(''end_processing'', JBool False)]) ''exit_code'' =
       Inr (JInt 1)"
    "job_info_field (unended_info [(''end_processing'', JBool False)]) ''std_err'' =
       Inr (JStr ''boom'')"
    by (simp_all add: unended_info_def demo_info_fields)
  note run = synchronous_ignores_end_processing [OF demo_processor_simps(1) [of True] _
      demo_working_dir [of True] demo_mkdir demo_prepare_input demo_first_reply _
      demo_replies(1) demo_replies(2) demo_submitted_eq [symmetric], THEN conjunct2, rule_format]
  have "execute (demo_processor True) (demo_env [replied (unended_info [])]) ''request'' ()
        demo_world =
      Some (Inl (ProcessorExecuteError (Val (JStr (job_failure_message (JStr ''abc123'') (JInt 1))))),
            (demo_submitted True)\<lparr>error_log := error_log (demo_submitted True) @
               [job_failure_log (JStr ''abc123'') (JInt 1) (JStr ''boom'')]\<rparr>)"
    by (rule run) (simp_all add: demo_processor_simps fields absent)
  moreover have "execute (demo_processor True)
        (demo_env [replied (unended_info [(''end_processing'', JBool False)])]) ''request'' ()
        demo_world =
      Some (Inl (ProcessorExecuteError (Val (JStr (job_failure_message (JStr ''abc123'') (JInt 1))))),
            (demo_submitted True)\<lparr>error_log := error_log (demo_submitted True) @
               [job_failure_log (JStr ''abc123'') (JInt 1) (JStr ''boom'')]\<rparr>)"
    by (rule run) (simp_all add: demo_processor_simps fields false)
  ultimately show ?thesis
    using absent(1) false(1)
    by (simp add: demo_failure_message) (simp add: demo_submitted_def)
qed

end
